theory Spec2Isabelle
  imports Complex_Main "HOL-Library.AList"
begin

section \<open>JSON Schema generation from Go types (schema.go)\<close>

text \<open>
  The package has two functions: \<^verbatim>\<open>getTagValue\<close>, which turns the text of a struct tag
  into a value, and \<^verbatim>\<open>GenerateSchema\<close>, which walks a \<^verbatim>\<open>reflect.Type\<close> and builds a
  \<^verbatim>\<open>Schema\<close>. Both are pure apart from the errors they return, so each becomes a HOL
  function into \<open>error + result\<close>, with \<open>Inl\<close> the error.

  What the code takes from outside the repository is modelled as follows.
  \<^item> \<^verbatim>\<open>reflect.Type\<close>: a descriptor holding what the walk reads of a type, namely
    \<^verbatim>\<open>String()\<close>, \<^verbatim>\<open>Kind()\<close>, \<^verbatim>\<open>Elem()\<close> and the fields \<^verbatim>\<open>Field(0..NumField()-1)\<close>.
    Descriptors are finite trees; a type that refers to itself, on which the source
    recurses without end, has no descriptor here. Go's \<^verbatim>\<open>==\<close> on types is equality of
    descriptors.
  \<^item> \<^verbatim>\<open>reflect.StructTag\<close>: the key/value pairs of the tag, in the order written;
    \<^verbatim>\<open>Lookup\<close> finds the first pair with the key.
  \<^item> \<^verbatim>\<open>strings.Split\<close> and \<^verbatim>\<open>strconv.Atoi\<close>: written out (a 64-bit \<^verbatim>\<open>int\<close>).
  \<^item> \<^verbatim>\<open>json.Unmarshal\<close> and the three package variables \<^verbatim>\<open>timeType\<close>, \<^verbatim>\<open>ipType\<close>,
    \<^verbatim>\<open>uriType\<close>, whose values are types of the standard library: parameters, collected
    in the record \<open>host\<close>.
\<close>

subsection \<open>Types as the reflect package shows them\<close>

datatype Kind =
    reflect_Invalid | reflect_Bool
  | reflect_Int | reflect_Int8 | reflect_Int16 | reflect_Int32 | reflect_Int64
  | reflect_Uint | reflect_Uint8 | reflect_Uint16 | reflect_Uint32 | reflect_Uint64
  | reflect_Uintptr | reflect_Float32 | reflect_Float64
  | reflect_Complex64 | reflect_Complex128
  | reflect_Array | reflect_Chan | reflect_Func | reflect_Interface | reflect_Map
  | reflect_Ptr | reflect_Slice | reflect_String | reflect_Struct
  | reflect_UnsafePointer

text \<open>
  \<open>Elem\<close> is \<open>None\<close> where \<^verbatim>\<open>t.Elem()\<close> would panic (the type has no element type);
  \<open>Fields\<close> is read for struct kinds only.
\<close>

datatype rtype =
  RType (String: string) (Kind: Kind) (Elem: "rtype option") (Fields: "StructField list")
and StructField =
  StructField (Name: string) (Typ: rtype) (Tag: "(string \<times> string) list")

subsection \<open>Values, errors and the Schema struct\<close>

text \<open>
  A value held in an \<^verbatim>\<open>interface{}\<close> field: the untyped \<^verbatim>\<open>nil\<close>, or what
  \<^verbatim>\<open>json.Unmarshal\<close> stores into an \<^verbatim>\<open>interface{}\<close> (\<^verbatim>\<open>bool\<close>, \<^verbatim>\<open>float64\<close>, \<^verbatim>\<open>string\<close>,
  \<^verbatim>\<open>[]interface{}\<close>, \<^verbatim>\<open>map[string]interface{}\<close>). A \<^verbatim>\<open>float64\<close> is represented by the
  real number it denotes.
\<close>

datatype Value =
    VNil | VBool bool | VFloat64 real | VString string
  | VSlice "Value list" | VMap "(string \<times> Value) list"

text \<open>
  \<open>UnsupportedType k n\<close> is \<^verbatim>\<open>fmt.Errorf("unsupported type %s from %s", t.Kind(), t)\<close>
  with \<open>k\<close> the kind and \<open>n\<close> the text \<^verbatim>\<open>t.String()\<close>; \<open>NumError s\<close> is the
  \<^verbatim>\<open>*strconv.NumError\<close> of \<^verbatim>\<open>Atoi\<close> on \<open>s\<close> (its \<^verbatim>\<open>Err\<close> field is left out);
  \<open>UnmarshalError\<close> is for the decoder; \<open>Panic\<close> is a run-time panic.
\<close>

datatype error =
    UnsupportedType Kind string
  | NumError string
  | UnmarshalError string
  | Panic string

text \<open>
  The struct \<^verbatim>\<open>Schema\<close> refers to itself through \<^verbatim>\<open>Items\<close> and \<^verbatim>\<open>Properties\<close>, so these two
  fields stand beside a record of the twenty others. A \<^verbatim>\<open>nil\<close> pointer, slice or map is
  \<open>None\<close>; an empty but allocated slice is \<open>Some []\<close>. \<^verbatim>\<open>Properties\<close> is a list of
  pairs with distinct keys, a key keeping the place of its first insertion.
\<close>

record Schema_attrs =
  Type :: string
  Description :: string
  Required :: "string list option"
  Format :: string
  Enum :: "Value list option"
  Default :: Value
  Example :: Value
  Minimum :: "int option"
  ExclusiveMinimum :: "int option"
  Maximum :: "int option"
  ExclusiveMaximum :: "int option"
  MultipleOf :: int
  MinLength :: "int option"
  MaxLength :: "int option"
  Pattern :: string
  MinItems :: "int option"
  MaxItems :: "int option"
  UniqueItems :: bool
  MinProperties :: "int option"
  MaxProperties :: "int option"

datatype Schema =
  Schema (attrs: Schema_attrs) (Items: "Schema option")
    (Properties: "(string \<times> Schema) list option")

text \<open>The zero value \<^verbatim>\<open>Schema{}\<close> is \<open>Schema zero None None\<close>.\<close>

definition zero :: Schema_attrs where
  "zero = \<lparr>Type = '''', Description = '''', Required = None, Format = '''', Enum = None,
     Default = VNil, Example = VNil, Minimum = None, ExclusiveMinimum = None, Maximum = None,
     ExclusiveMaximum = None, MultipleOf = 0, MinLength = None, MaxLength = None,
     Pattern = '''', MinItems = None, MaxItems = None, UniqueItems = False,
     MinProperties = None, MaxProperties = None\<rparr>"

definition upd :: "(Schema_attrs \<Rightarrow> Schema_attrs) \<Rightarrow> Schema \<Rightarrow> Schema" where
  "upd g s = Schema (g (attrs s)) (Items s) (Properties s)"

subsection \<open>The host: package variables and the JSON decoder\<close>

record host =
  timeType :: rtype
  ipType :: rtype
  uriType :: rtype
  json_Unmarshal :: "string \<Rightarrow> error + Value"

text \<open>
  The fourth package variable, \<^verbatim>\<open>byteSliceType = reflect.TypeOf([]byte(nil))\<close>, is made of
  predeclared types only, so it is a constant. No function of the package reads it.
\<close>

definition uint8T :: rtype where
  "uint8T = RType ''uint8'' reflect_Uint8 None []"

definition byteSliceType :: rtype where
  "byteSliceType = RType ''[]uint8'' reflect_Slice (Some uint8T) []"

subsection \<open>Library functions\<close>

text \<open>
  \<^verbatim>\<open>strings.Split(s, sep)\<close> for a separator of one character: the pieces of \<open>s\<close> between
  the separators, one more than there are separators. The empty string gives one empty
  piece.
\<close>

fun genSplit :: "char \<Rightarrow> string \<Rightarrow> string \<Rightarrow> string list" where
  "genSplit sep piece [] = [piece]"
| "genSplit sep piece (c # cs) =
     (if c = sep then piece # genSplit sep [] cs else genSplit sep (piece @ [c]) cs)"

definition strings_Split :: "string \<Rightarrow> char \<Rightarrow> string list" where
  "strings_Split s sep = genSplit sep [] s"

text \<open>
  \<^verbatim>\<open>strconv.Atoi\<close>: an optional sign, then one or more decimal digits, the number within
  the range of a 64-bit \<^verbatim>\<open>int\<close>.
\<close>

definition isDigit :: "char \<Rightarrow> bool" where
  "isDigit c = (c \<in> set ''0123456789'')"

definition decimal :: "string \<Rightarrow> int" where
  "decimal ds = foldl (\<lambda>n c. 10 * n + (of_char c - 48)) 0 ds"

definition strconv_Atoi :: "string \<Rightarrow> error + int" where
  "strconv_Atoi s =
     (let neg = (take 1 s = ''-'');
          ds = (if take 1 s = ''-'' \<or> take 1 s = ''+'' then drop 1 s else s)
      in if ds = [] \<or> \<not> list_all isDigit ds then Inl (NumError s)
         else let n = (if neg then - decimal ds else decimal ds)
              in if n < - (2 ^ 63) \<or> 2 ^ 63 \<le> n then Inl (NumError s) else Inr n)"

text \<open>\<^verbatim>\<open>f.Tag.Lookup(key)\<close> and \<^verbatim>\<open>f.Tag.Get(key)\<close>.\<close>

definition Lookup :: "(string \<times> string) list \<Rightarrow> string \<Rightarrow> string option" where
  "Lookup tag key = map_of tag key"

definition Get :: "(string \<times> string) list \<Rightarrow> string \<Rightarrow> string" where
  "Get tag key = (case Lookup tag key of None \<Rightarrow> '''' | Some v \<Rightarrow> v)"

subsection \<open>getTagValue (lines 23-33)\<close>

definition getTagValue :: "host \<Rightarrow> Schema \<Rightarrow> string \<Rightarrow> error + Value" where
  "getTagValue h s v =
     (if Type (attrs s) = ''string'' then Inr (VString v) else json_Unmarshal h v)"

subsection \<open>The tags of one field (lines 102-233)\<close>

text \<open>
  The source repeats one block per tag key. Three shapes occur: the text is stored as
  it is (\<open>stringTag\<close>), parsed by \<^verbatim>\<open>strconv.Atoi\<close> (\<open>atoiTag\<close>), or coerced by
  \<^verbatim>\<open>getTagValue\<close> (\<open>valueTag\<close>); \<^verbatim>\<open>enum\<close> coerces each piece of the text in a loop. A
  block whose key is absent leaves the schema as it is; a block that fails returns the
  error.
\<close>

definition stringTag ::
  "(string \<times> string) list \<Rightarrow> string \<Rightarrow> (string \<Rightarrow> Schema_attrs \<Rightarrow> Schema_attrs)
     \<Rightarrow> Schema \<Rightarrow> error + Schema" where
  "stringTag tag key assign s =
     (case Lookup tag key of None \<Rightarrow> Inr s | Some t \<Rightarrow> Inr (upd (assign t) s))"

definition atoiTag ::
  "(string \<times> string) list \<Rightarrow> string \<Rightarrow> (int \<Rightarrow> Schema_attrs \<Rightarrow> Schema_attrs)
     \<Rightarrow> Schema \<Rightarrow> error + Schema" where
  "atoiTag tag key assign s =
     (case Lookup tag key of
        None \<Rightarrow> Inr s
      | Some t \<Rightarrow>
          (case strconv_Atoi t of
             Inl err \<Rightarrow> Inl err
           | Inr n \<Rightarrow> Inr (upd (assign n) s)))"

definition valueTag ::
  "host \<Rightarrow> (string \<times> string) list \<Rightarrow> string \<Rightarrow> (Value \<Rightarrow> Schema_attrs \<Rightarrow> Schema_attrs)
     \<Rightarrow> Schema \<Rightarrow> error + Schema" where
  "valueTag h tag key assign s =
     (case Lookup tag key of
        None \<Rightarrow> Inr s
      | Some t \<Rightarrow>
          (case getTagValue h s t of
             Inl err \<Rightarrow> Inl err
           | Inr v \<Rightarrow> Inr (upd (assign v) s)))"

fun enumLoop :: "host \<Rightarrow> Schema \<Rightarrow> string list \<Rightarrow> Value list \<Rightarrow> error + Value list" where
  "enumLoop h s [] enum = Inr enum"
| "enumLoop h s (v # vs) enum =
     (case getTagValue h s v of
        Inl err \<Rightarrow> Inl err
      | Inr parsed \<Rightarrow> enumLoop h s vs (enum @ [parsed]))"

definition enumTag :: "host \<Rightarrow> (string \<times> string) list \<Rightarrow> Schema \<Rightarrow> error + Schema" where
  "enumTag h tag s =
     (case Lookup tag ''enum'' of
        None \<Rightarrow> Inr s
      | Some t \<Rightarrow>
          (case enumLoop h s (strings_Split t CHR '','') [] of
             Inl err \<Rightarrow> Inl err
           | Inr enum \<Rightarrow> Inr (upd (\<lambda>a. a\<lparr>Enum := Some enum\<rparr>) s)))"

text \<open>
  The blocks run in the order of the source, \<open>steps\<close> stopping at the first that fails.
\<close>

fun steps :: "(Schema \<Rightarrow> error + Schema) list \<Rightarrow> Schema \<Rightarrow> error + Schema" where
  "steps [] s = Inr s"
| "steps (step # rest) s =
     (case step s of Inl err \<Rightarrow> Inl err | Inr s' \<Rightarrow> steps rest s')"

definition tagSteps ::
  "host \<Rightarrow> (string \<times> string) list \<Rightarrow> (Schema \<Rightarrow> error + Schema) list" where
  "tagSteps h tag =
      [stringTag tag ''description'' (\<lambda>t a. a\<lparr>Description := t\<rparr>),
       stringTag tag ''format'' (\<lambda>t a. a\<lparr>Format := t\<rparr>),
       enumTag h tag,
       valueTag h tag ''default'' (\<lambda>v a. a\<lparr>Default := v\<rparr>),
       valueTag h tag ''example'' (\<lambda>v a. a\<lparr>Example := v\<rparr>),
       atoiTag tag ''minimum'' (\<lambda>n a. a\<lparr>Minimum := Some n\<rparr>),
       atoiTag tag ''exclusiveMinimum'' (\<lambda>n a. a\<lparr>ExclusiveMinimum := Some n\<rparr>),
       atoiTag tag ''maximum'' (\<lambda>n a. a\<lparr>Maximum := Some n\<rparr>),
       atoiTag tag ''exclusiveMaximum'' (\<lambda>n a. a\<lparr>ExclusiveMaximum := Some n\<rparr>),
       atoiTag tag ''multipleOf'' (\<lambda>n a. a\<lparr>MultipleOf := n\<rparr>),
       atoiTag tag ''minLength'' (\<lambda>n a. a\<lparr>MinLength := Some n\<rparr>),
       atoiTag tag ''maxLength'' (\<lambda>n a. a\<lparr>MaxLength := Some n\<rparr>),
       stringTag tag ''pattern'' (\<lambda>t a. a\<lparr>Pattern := t\<rparr>),
       atoiTag tag ''minItems'' (\<lambda>n a. a\<lparr>MinItems := Some n\<rparr>),
       atoiTag tag ''maxItems'' (\<lambda>n a. a\<lparr>MaxItems := Some n\<rparr>),
       stringTag tag ''uniqueItems'' (\<lambda>t a. a\<lparr>UniqueItems := (t = ''true'')\<rparr>),
       atoiTag tag ''minProperties'' (\<lambda>n a. a\<lparr>MinProperties := Some n\<rparr>),
       atoiTag tag ''maxProperties'' (\<lambda>n a. a\<lparr>MaxProperties := Some n\<rparr>)]"

definition applyTags :: "host \<Rightarrow> (string \<times> string) list \<Rightarrow> Schema \<Rightarrow> error + Schema" where
  "applyTags h tag = steps (tagSteps h tag)"


subsection \<open>Property name and optionality of a field (lines 89-94, 235-240)\<close>

definition jsonTags :: "(string \<times> string) list \<Rightarrow> string list" where
  "jsonTags tag = strings_Split (Get tag ''json'') CHR '',''"

definition propertyName :: "string \<Rightarrow> (string \<times> string) list \<Rightarrow> string" where
  "propertyName fname tag = (if length (jsonTags tag) > 0 then jsonTags tag ! 0 else fname)"

text \<open>
  The loop over \<^verbatim>\<open>jsonTags[1:]\<close> sets \<^verbatim>\<open>optional\<close> when a component after the first is
  \<^verbatim>\<open>omitempty\<close>. \<^verbatim>\<open>jsonTags\<close> is never empty (lemma \<open>jsonTags_not_Nil\<close> below), so the slice
  expression does not panic.
\<close>

definition optional :: "(string \<times> string) list \<Rightarrow> bool" where
  "optional tag = (''omitempty'' \<in> set (drop 1 (jsonTags tag)))"

subsection \<open>GenerateSchema (lines 64-287)\<close>

text \<open>
  \<open>structFields\<close> is the loop of lines 86-244 over the fields that are left, with the
  map \<^verbatim>\<open>properties\<close> and the slice \<^verbatim>\<open>required\<close> built so far. The source stores the
  pointer \<^verbatim>\<open>s\<close> in \<^verbatim>\<open>properties\<close> before it applies the tags to \<^verbatim>\<open>*s\<close>; the entry therefore
  holds the schema with the tags applied, which is what the model stores.
\<close>

fun GenerateSchema :: "host \<Rightarrow> rtype \<Rightarrow> error + Schema"
and structFields ::
  "host \<Rightarrow> StructField list \<Rightarrow> (string \<times> Schema) list \<Rightarrow> string list
     \<Rightarrow> error + ((string \<times> Schema) list \<times> string list)"
where
  "GenerateSchema h (RType nm k el fs) =
    (if RType nm k el fs = ipType h then
       Inr (Schema (zero\<lparr>Type := ''string'', Format := ''ipv4''\<rparr>) None None)
     else if k = reflect_Struct then
       (if RType nm k el fs = timeType h then
          Inr (Schema (zero\<lparr>Type := ''string'', Format := ''date-time''\<rparr>) None None)
        else if RType nm k el fs = uriType h then
          Inr (Schema (zero\<lparr>Type := ''string'', Format := ''uri''\<rparr>) None None)
        else
          (case structFields h fs [] [] of
             Inl err \<Rightarrow> Inl err
           | Inr (properties, required) \<Rightarrow>
               Inr (Schema
                 (zero\<lparr>Type := ''object'',
                    Required := (if length required > 0 then Some required else None)\<rparr>)
                 None
                 (if length properties > 0 then Some properties else None))))
     else if k = reflect_Map then Inr (Schema zero None None)
     else if k = reflect_Slice \<or> k = reflect_Array then
       (case el of
          None \<Rightarrow> Inl (Panic ''reflect: Elem of invalid type'')
        | Some e \<Rightarrow>
            (case GenerateSchema h e of
               Inl err \<Rightarrow> Inl err
             | Inr s \<Rightarrow> Inr (Schema (zero\<lparr>Type := ''array''\<rparr>) (Some s) None)))
     else if k = reflect_Int \<or> k = reflect_Int8 \<or> k = reflect_Int16 \<or> k = reflect_Int32
             \<or> k = reflect_Int64 then
       Inr (Schema (zero\<lparr>Type := ''integer''\<rparr>) None None)
     else if k = reflect_Uint \<or> k = reflect_Uint8 \<or> k = reflect_Uint16 \<or> k = reflect_Uint32
             \<or> k = reflect_Uint64 then
       Inr (Schema (zero\<lparr>Type := ''integer'', Minimum := Some 0\<rparr>) None None)
     else if k = reflect_Float32 \<or> k = reflect_Float64 then
       Inr (Schema (zero\<lparr>Type := ''number''\<rparr>) None None)
     else if k = reflect_Bool then Inr (Schema (zero\<lparr>Type := ''boolean''\<rparr>) None None)
     else if k = reflect_String then Inr (Schema (zero\<lparr>Type := ''string''\<rparr>) None None)
     else if k = reflect_Ptr then
       (case el of
          None \<Rightarrow> Inl (Panic ''reflect: Elem of invalid type'')
        | Some e \<Rightarrow> GenerateSchema h e)
     else Inl (UnsupportedType k nm))"
| "structFields h [] properties required = Inr (properties, required)"
| "structFields h (StructField fname ftype tag # rest) properties required =
     (case GenerateSchema h ftype of
        Inl err \<Rightarrow> Inl err
      | Inr s \<Rightarrow>
          (case applyTags h tag s of
             Inl err \<Rightarrow> Inl err
           | Inr s' \<Rightarrow>
               structFields h rest
                 (AList.update (propertyName fname tag) s' properties)
                 (if optional tag then required else required @ [propertyName fname tag])))"

text \<open>
  What the loop body computes for one field: the schema of the field's type with the
  field's tags applied, or the first error on the way.
\<close>

definition fieldSchema :: "host \<Rightarrow> StructField \<Rightarrow> error + Schema" where
  "fieldSchema h f =
     (case GenerateSchema h (Typ f) of
        Inl err \<Rightarrow> Inl err
      | Inr s \<Rightarrow> applyTags h (Tag f) s)"


subsection \<open>A host and some types for the examples\<close>

text \<open>
  In \<open>example_host\<close> the three special types carry the names and kinds that
  \<^verbatim>\<open>time.Time\<close>, \<^verbatim>\<open>net.IP\<close> (declared as \<^verbatim>\<open>[]byte\<close>) and \<^verbatim>\<open>url.URL\<close> have; the field lists of the
  two structs, which the walk never reads, are left empty. Its decoder knows the three
  literals the examples use and rejects every other text.
\<close>

definition intT :: rtype where
  "intT = RType ''int'' reflect_Int None []"

definition stringT :: rtype where
  "stringT = RType ''string'' reflect_String None []"

definition uintptrT :: rtype where
  "uintptrT = RType ''uintptr'' reflect_Uintptr None []"

definition example_Unmarshal :: "string \<Rightarrow> error + Value" where
  "example_Unmarshal s =
     (case map_of [(''1'', VFloat64 1), (''2'', VFloat64 2), (''3'', VFloat64 3)] s of
        None \<Rightarrow> Inl (UnmarshalError s)
      | Some v \<Rightarrow> Inr v)"

definition example_host :: host where
  "example_host =
     \<lparr>timeType = RType ''time.Time'' reflect_Struct None [],
      ipType = RType ''net.IP'' reflect_Slice (Some uint8T) [],
      uriType = RType ''url.URL'' reflect_Struct None [],
      json_Unmarshal = example_Unmarshal\<rparr>"

text \<open>
  The structs of the examples: a field with no \<^verbatim>\<open>json\<close> tag; the scenario of the
  specification (\<^verbatim>\<open>Name string `json:"name"`\<close>,
  \<^verbatim>\<open>Age int `json:"age,omitempty" minimum:"0"`\<close>); two fields that resolve to the name
  \<^verbatim>\<open>x\<close>, the second optional; and two such fields, both required.
\<close>

definition fooStruct :: rtype where
  "fooStruct = RType ''struct { Foo string }'' reflect_Struct None [StructField ''Foo'' stringT []]"

definition personStruct :: rtype where
  "personStruct = RType ''Person'' reflect_Struct None
     [StructField ''Name'' stringT [(''json'', ''name'')],
      StructField ''Age'' intT [(''json'', ''age,omitempty''), (''minimum'', ''0'')]]"

definition clashStruct :: rtype where
  "clashStruct = RType ''Clash'' reflect_Struct None
     [StructField ''A'' intT [(''json'', ''x'')],
      StructField ''B'' stringT [(''json'', ''x,omitempty'')]]"

definition twiceStruct :: rtype where
  "twiceStruct = RType ''Twice'' reflect_Struct None
     [StructField ''A'' intT [(''json'', ''x'')],
      StructField ''B'' stringT [(''json'', ''x'')]]"



definition enumStruct :: rtype where
  "enumStruct = RType ''Enums'' reflect_Struct None
     [StructField ''S'' stringT [(''json'', ''s''), (''enum'', ''a,b,c'')],
      StructField ''N'' intT [(''json'', ''n''), (''enum'', ''1,2,3'')]]"



section \<open>Properties\<close>

subsection \<open>GenerateSchema, one kind at a time\<close>

text \<open>
  The defining equation of \<open>GenerateSchema\<close>, read through the selectors of the
  descriptor. The lemmas after it give the result for each branch of the switch; from
  here on the defining equation is no longer a simplification rule.
\<close>

lemma GenerateSchema_unfold:
  "GenerateSchema h t =
    (if t = ipType h then
       Inr (Schema (zero\<lparr>Type := ''string'', Format := ''ipv4''\<rparr>) None None)
     else if Kind t = reflect_Struct then
       (if t = timeType h then
          Inr (Schema (zero\<lparr>Type := ''string'', Format := ''date-time''\<rparr>) None None)
        else if t = uriType h then
          Inr (Schema (zero\<lparr>Type := ''string'', Format := ''uri''\<rparr>) None None)
        else
          (case structFields h (Fields t) [] [] of
             Inl err \<Rightarrow> Inl err
           | Inr (properties, required) \<Rightarrow>
               Inr (Schema
                 (zero\<lparr>Type := ''object'',
                    Required := (if length required > 0 then Some required else None)\<rparr>)
                 None
                 (if length properties > 0 then Some properties else None))))
     else if Kind t = reflect_Map then Inr (Schema zero None None)
     else if Kind t = reflect_Slice \<or> Kind t = reflect_Array then
       (case Elem t of
          None \<Rightarrow> Inl (Panic ''reflect: Elem of invalid type'')
        | Some e \<Rightarrow>
            (case GenerateSchema h e of
               Inl err \<Rightarrow> Inl err
             | Inr s \<Rightarrow> Inr (Schema (zero\<lparr>Type := ''array''\<rparr>) (Some s) None)))
     else if Kind t = reflect_Int \<or> Kind t = reflect_Int8 \<or> Kind t = reflect_Int16
             \<or> Kind t = reflect_Int32 \<or> Kind t = reflect_Int64 then
       Inr (Schema (zero\<lparr>Type := ''integer''\<rparr>) None None)
     else if Kind t = reflect_Uint \<or> Kind t = reflect_Uint8 \<or> Kind t = reflect_Uint16
             \<or> Kind t = reflect_Uint32 \<or> Kind t = reflect_Uint64 then
       Inr (Schema (zero\<lparr>Type := ''integer'', Minimum := Some 0\<rparr>) None None)
     else if Kind t = reflect_Float32 \<or> Kind t = reflect_Float64 then
       Inr (Schema (zero\<lparr>Type := ''number''\<rparr>) None None)
     else if Kind t = reflect_Bool then Inr (Schema (zero\<lparr>Type := ''boolean''\<rparr>) None None)
     else if Kind t = reflect_String then Inr (Schema (zero\<lparr>Type := ''string''\<rparr>) None None)
     else if Kind t = reflect_Ptr then
       (case Elem t of
          None \<Rightarrow> Inl (Panic ''reflect: Elem of invalid type'')
        | Some e \<Rightarrow> GenerateSchema h e)
     else Inl (UnsupportedType (Kind t) (String t)))"
proof (cases t)
  case (RType nm k el fs)
  show ?thesis
    unfolding RType rtype.sel by (rule GenerateSchema.simps(1))
qed

declare GenerateSchema.simps(1) [simp del]




lemma GenerateSchema_struct:
  "t \<noteq> ipType h \<Longrightarrow> Kind t = reflect_Struct \<Longrightarrow> t \<noteq> timeType h \<Longrightarrow> t \<noteq> uriType h \<Longrightarrow>
   GenerateSchema h t =
     (case structFields h (Fields t) [] [] of
        Inl err \<Rightarrow> Inl err
      | Inr (properties, required) \<Rightarrow>
          Inr (Schema
            (zero\<lparr>Type := ''object'',
               Required := (if length required > 0 then Some required else None)\<rparr>)
            None
            (if length properties > 0 then Some properties else None)))"
  by (simp add: GenerateSchema_unfold)

lemma GenerateSchema_map:
  "t \<noteq> ipType h \<Longrightarrow> Kind t = reflect_Map \<Longrightarrow> GenerateSchema h t = Inr (Schema zero None None)"
  by (simp add: GenerateSchema_unfold)

lemma GenerateSchema_elem:
  "t \<noteq> ipType h \<Longrightarrow> Kind t = reflect_Slice \<or> Kind t = reflect_Array \<Longrightarrow> Elem t = Some e \<Longrightarrow>
   GenerateSchema h t =
     (case GenerateSchema h e of
        Inl err \<Rightarrow> Inl err
      | Inr s \<Rightarrow> Inr (Schema (zero\<lparr>Type := ''array''\<rparr>) (Some s) None))"
  by (elim disjE) (simp_all add: GenerateSchema_unfold)

lemma GenerateSchema_signed:
  "t \<noteq> ipType h \<Longrightarrow>
   Kind t \<in> {reflect_Int, reflect_Int8, reflect_Int16, reflect_Int32, reflect_Int64} \<Longrightarrow>
   GenerateSchema h t = Inr (Schema (zero\<lparr>Type := ''integer''\<rparr>) None None)"
  by (elim insertE emptyE disjE) (simp_all add: GenerateSchema_unfold)

lemma GenerateSchema_unsigned:
  "t \<noteq> ipType h \<Longrightarrow>
   Kind t \<in> {reflect_Uint, reflect_Uint8, reflect_Uint16, reflect_Uint32, reflect_Uint64} \<Longrightarrow>
   GenerateSchema h t = Inr (Schema (zero\<lparr>Type := ''integer'', Minimum := Some 0\<rparr>) None None)"
  by (elim insertE emptyE disjE) (simp_all add: GenerateSchema_unfold)




lemma GenerateSchema_ptr:
  "t \<noteq> ipType h \<Longrightarrow> Kind t = reflect_Ptr \<Longrightarrow> Elem t = Some e \<Longrightarrow>
   GenerateSchema h t = GenerateSchema h e"
  by (simp add: GenerateSchema_unfold)

lemma GenerateSchema_unsupported:
  "t \<noteq> ipType h \<Longrightarrow>
   Kind t \<in> {reflect_Invalid, reflect_Uintptr, reflect_Complex64, reflect_Complex128,
     reflect_Chan, reflect_Func, reflect_Interface, reflect_UnsafePointer} \<Longrightarrow>
   GenerateSchema h t = Inl (UnsupportedType (Kind t) (String t))"
  by (elim insertE emptyE disjE) (simp_all add: GenerateSchema_unfold)

subsection \<open>strings.Split and the property name\<close>

lemma genSplit_not_Nil: "genSplit sep piece s \<noteq> []"
  by (induction s arbitrary: piece) auto

lemma jsonTags_not_Nil: "jsonTags tag \<noteq> []"
  by (simp add: jsonTags_def strings_Split_def genSplit_not_Nil)

lemma propertyName_first: "propertyName fname tag = hd (jsonTags tag)"
  using jsonTags_not_Nil [of tag] by (cases "jsonTags tag") (simp_all add: propertyName_def)

lemma propertyName_no_json: "Lookup tag ''json'' = None \<Longrightarrow> propertyName fname tag = ''''"
  by (simp add: propertyName_def jsonTags_def Get_def strings_Split_def)


subsection \<open>The loop over the fields\<close>

lemma structFields_Cons:
  "structFields h (f # rest) properties required =
     (case fieldSchema h f of
        Inl err \<Rightarrow> Inl err
      | Inr s' \<Rightarrow>
          structFields h rest
            (AList.update (propertyName (Name f) (Tag f)) s' properties)
            (if optional (Tag f) then required
             else required @ [propertyName (Name f) (Tag f)]))"
  by (cases f) (simp add: fieldSchema_def split: sum.splits)

lemma structFields_append:
  "structFields h (xs @ ys) p r =
     (case structFields h xs p r of
        Inl err \<Rightarrow> Inl err
      | Inr (p1, r1) \<Rightarrow> structFields h ys p1 r1)"
  by (induction xs arbitrary: p r) (simp_all add: structFields_Cons split: sum.splits)

lemma structFields_required:
  "structFields h fs p r = Inr (p', r') \<Longrightarrow>
   r' = r @ map (\<lambda>f. propertyName (Name f) (Tag f)) (filter (\<lambda>f. \<not> optional (Tag f)) fs)"
proof (induction fs arbitrary: p r)
  case Nil
  then show ?case by simp
next
  case (Cons f fs)
  from Cons.prems obtain s where
    "structFields h fs (AList.update (propertyName (Name f) (Tag f)) s p)
       (if optional (Tag f) then r else r @ [propertyName (Name f) (Tag f)]) = Inr (p', r')"
    by (auto simp: structFields_Cons split: sum.splits)
  from Cons.IH [OF this] show ?case by simp
qed



lemma structFields_distinct:
  "structFields h fs p r = Inr (p', r') \<Longrightarrow> distinct (map fst p) \<Longrightarrow> distinct (map fst p')"
  by (induction fs arbitrary: p r) (auto simp: structFields_Cons distinct_update split: sum.splits)

lemma structFields_other_keys:
  "structFields h fs p r = Inr (p', r') \<Longrightarrow>
   \<forall>g\<in>set fs. propertyName (Name g) (Tag g) \<noteq> n \<Longrightarrow> map_of p' n = map_of p n"
  by (induction fs arbitrary: p r) (auto simp: structFields_Cons update_conv' split: sum.splits)

lemma structFields_not_Nil:
  "structFields h fs p r = Inr (p', r') \<Longrightarrow> fs \<noteq> [] \<or> p \<noteq> [] \<Longrightarrow> p' \<noteq> []"
proof (induction fs arbitrary: p r)
  case Nil
  then show ?case by simp
next
  case (Cons f fs)
  from Cons.prems(1) obtain s where
    "structFields h fs (AList.update (propertyName (Name f) (Tag f)) s p)
       (if optional (Tag f) then r else r @ [propertyName (Name f) (Tag f)]) = Inr (p', r')"
    by (auto simp: structFields_Cons split: sum.splits)
  moreover have "AList.update (propertyName (Name f) (Tag f)) s p \<noteq> []"
    by (cases p) auto
  ultimately show ?case using Cons.IH by blast
qed

lemma filter_key_distinct:
  "distinct (map fst al) \<Longrightarrow> map_of al k = Some v \<Longrightarrow> filter (\<lambda>kv. fst kv = k) al = [(k, v)]"
proof (induction al)
  case Nil
  then show ?case by simp
next
  case (Cons a al)
  show ?case
  proof (cases "fst a = k")
    case True
    with Cons.prems have "a = (k, v)" by (cases a) auto
    moreover have "filter (\<lambda>kv. fst kv = k) al = []"
    proof -
      from Cons.prems(1) have "fst a \<notin> fst ` set al" by simp
      with True have "\<And>kv. kv \<in> set al \<Longrightarrow> fst kv \<noteq> k" by blast
      then show ?thesis by (simp add: filter_empty_conv)
    qed
    ultimately show ?thesis by simp
  next
    case False
    with Cons show ?thesis by (cases a) auto
  qed
qed

lemma count_list_append: "count_list (xs @ ys) n = count_list xs n + count_list ys n"
  by (induction xs) auto

lemma count_list_names:
  "count_list (map nm (filter P fs)) n = length (filter (\<lambda>g. nm g = n \<and> P g) fs)"
  by (induction fs) auto

lemma zero_sel [simp]:
  "Type zero = ''''" "Format zero = ''''" "Required zero = None" "Minimum zero = None"
  "Enum zero = None"
  by (simp_all add: zero_def)



subsection \<open>The tags of a field\<close>






lemma upd_Type:
  "(\<And>a. Type (g a) = Type a) \<Longrightarrow> Type (attrs (upd g s)) = Type (attrs s)"
  by (simp add: upd_def)

lemma stringTag_Type:
  "stringTag tag key assign s = Inr s' \<Longrightarrow> (\<And>x a. Type (assign x a) = Type a) \<Longrightarrow>
   Type (attrs s') = Type (attrs s)"
  by (auto simp: stringTag_def upd_def split: option.splits)

lemma atoiTag_Type:
  "atoiTag tag key assign s = Inr s' \<Longrightarrow> (\<And>x a. Type (assign x a) = Type a) \<Longrightarrow>
   Type (attrs s') = Type (attrs s)"
  by (auto simp: atoiTag_def upd_def split: option.splits sum.splits)

lemma valueTag_Type:
  "valueTag h tag key assign s = Inr s' \<Longrightarrow> (\<And>x a. Type (assign x a) = Type a) \<Longrightarrow>
   Type (attrs s') = Type (attrs s)"
  by (auto simp: valueTag_def upd_def split: option.splits sum.splits)

lemma enumTag_Type:
  "enumTag h tag s = Inr s' \<Longrightarrow> Type (attrs s') = Type (attrs s)"
  by (auto simp: enumTag_def upd_def split: option.splits sum.splits)

lemma tagSteps_Type:
  assumes "step \<in> set (tagSteps h tag)" and "step s = Inr s'"
  shows "Type (attrs s') = Type (attrs s)"
  using assms unfolding tagSteps_def set_simps insert_iff empty_iff
  by (elim disjE FalseE)
     (auto elim!: stringTag_Type atoiTag_Type valueTag_Type enumTag_Type)



lemma applyTags_Type:
  assumes "applyTags h tag s = Inr s'"
  shows "Type (attrs s') = Type (attrs s)"
proof -
  have "steps sts s0 = Inr s' \<Longrightarrow> set sts \<subseteq> set (tagSteps h tag) \<Longrightarrow>
        Type (attrs s') = Type (attrs s0)" for sts s0
  proof (induction sts arbitrary: s0)
    case Nil
    then show ?case by simp
  next
    case (Cons step sts)
    from Cons.prems(1) obtain s1 where 1: "step s0 = Inr s1" and 2: "steps sts s1 = Inr s'"
      by (auto split: sum.splits)
    from Cons.prems(2) have "step \<in> set (tagSteps h tag)" by simp
    from this 1 have a: "Type (attrs s1) = Type (attrs s0)" by (rule tagSteps_Type)
    from Cons.prems(2) have "set sts \<subseteq> set (tagSteps h tag)" by simp
    from Cons.IH [OF 2 this] have "Type (attrs s') = Type (attrs s1)" .
    from this a show ?case by (rule trans)
  qed
  from this [of "tagSteps h tag" s] assms show ?thesis
    unfolding applyTags_def by blast
qed


























subsection \<open>The examples, evaluated\<close>

lemmas eval_defs =
  GenerateSchema_unfold example_host_def uint8T_def intT_def stringT_def
  applyTags_def tagSteps_def stringTag_def atoiTag_def valueTag_def enumTag_def getTagValue_def
  Lookup_def Get_def jsonTags_def propertyName_def optional_def strings_Split_def
  strconv_Atoi_def isDigit_def decimal_def upd_def example_Unmarshal_def

lemma fooStruct_schema:
  "GenerateSchema example_host fooStruct
     = Inr (Schema (zero\<lparr>Type := ''object'', Required := Some ['''']\<rparr>) None
         (Some [('''', Schema (zero\<lparr>Type := ''string''\<rparr>) None None)]))"
  by (simp add: fooStruct_def eval_defs)

lemma personStruct_schema:
  "GenerateSchema example_host personStruct
     = Inr (Schema (zero\<lparr>Type := ''object'', Required := Some [''name'']\<rparr>) None
         (Some [(''name'', Schema (zero\<lparr>Type := ''string''\<rparr>) None None),
                (''age'', Schema (zero\<lparr>Type := ''integer'', Minimum := Some 0\<rparr>) None None)]))"
  by (simp add: personStruct_def eval_defs)

lemma clashStruct_schema:
  "GenerateSchema example_host clashStruct
     = Inr (Schema (zero\<lparr>Type := ''object'', Required := Some [''x'']\<rparr>) None
         (Some [(''x'', Schema (zero\<lparr>Type := ''string''\<rparr>) None None)]))"
  by (simp add: clashStruct_def eval_defs)

lemma twiceStruct_schema:
  "GenerateSchema example_host twiceStruct
     = Inr (Schema (zero\<lparr>Type := ''object'', Required := Some [''x'', ''x'']\<rparr>) None
         (Some [(''x'', Schema (zero\<lparr>Type := ''string''\<rparr>) None None)]))"
  by (simp add: twiceStruct_def eval_defs)

lemma enumStruct_schema:
  "GenerateSchema example_host enumStruct
     = Inr (Schema (zero\<lparr>Type := ''object'', Required := Some [''s'', ''n'']\<rparr>) None
         (Some [(''s'', Schema (zero\<lparr>Type := ''string'',
                    Enum := Some [VString ''a'', VString ''b'', VString ''c'']\<rparr>) None None),
                (''n'', Schema (zero\<lparr>Type := ''integer'',
                    Enum := Some [VFloat64 1, VFloat64 2, VFloat64 3]\<rparr>) None None)]))"
  by (simp add: enumStruct_def eval_defs)


section \<open>The claims\<close>

text \<open>
  C1 at a field with no \<^verbatim>\<open>json\<close> tag. The claim gives such a field its declared name.
  In the code \<^verbatim>\<open>f.Tag.Get("json")\<close> is then the empty string, \<^verbatim>\<open>strings.Split\<close> of it is
  the one-element slice holding the empty string, the test \<^verbatim>\<open>len(jsonTags) > 0\<close> holds,
  and the name becomes the empty string: for \<^verbatim>\<open>struct { Foo string }\<close> the property and
  the required name are \<^verbatim>\<open>""\<close>, not \<^verbatim>\<open>Foo\<close>.
\<close>

theorem untagged_field_named_empty:
  "Lookup (Tag (StructField ''Foo'' stringT [])) ''json'' = None
   \<and> propertyName ''Foo'' [] = ''''
   \<and> GenerateSchema example_host fooStruct
       = Inr (Schema (zero\<lparr>Type := ''object'', Required := Some ['''']\<rparr>) None
           (Some [('''', Schema (zero\<lparr>Type := ''string''\<rparr>) None None)]))"
  by (simp add: fooStruct_schema propertyName_no_json Lookup_def)

text \<open>
  C2, as the code has it. For a struct type that is none of the special types and whose
  fields all convert, \<^verbatim>\<open>required\<close> is exactly the property names of the fields without
  the \<^verbatim>\<open>omitempty\<close> marker, one entry per such field, in declaration order, and it is
  absent (\<^verbatim>\<open>nil\<close>, not an empty slice) when there is no such field. A field with the
  marker adds no entry, so its name is absent from \<^verbatim>\<open>required\<close> unless a field without
  the marker resolves to the same name.
\<close>

theorem required_is_names_of_unmarked_fields:
  assumes "Kind t = reflect_Struct" and "t \<noteq> ipType h" and "t \<noteq> timeType h"
    and "t \<noteq> uriType h" and "GenerateSchema h t = Inr s"
  shows "Required (attrs s) =
           (if filter (\<lambda>f. \<not> optional (Tag f)) (Fields t) = [] then None
            else Some (map (\<lambda>f. propertyName (Name f) (Tag f))
                        (filter (\<lambda>f. \<not> optional (Tag f)) (Fields t))))
       \<and> (\<forall>f\<in>set (Fields t).
             optional (Tag f)
             \<and> (\<forall>g\<in>set (Fields t). \<not> optional (Tag g)
                    \<longrightarrow> propertyName (Name g) (Tag g) \<noteq> propertyName (Name f) (Tag f))
             \<longrightarrow> (\<forall>req. Required (attrs s) = Some req
                    \<longrightarrow> propertyName (Name f) (Tag f) \<notin> set req))"
proof -
  let ?names = "map (\<lambda>f. propertyName (Name f) (Tag f))
                  (filter (\<lambda>f. \<not> optional (Tag f)) (Fields t))"
  from assms obtain p r where loop: "structFields h (Fields t) [] [] = Inr (p, r)"
    and s: "s = Schema (zero\<lparr>Type := ''object'',
                 Required := (if length r > 0 then Some r else None)\<rparr>) None
               (if length p > 0 then Some p else None)"
    by (auto simp: GenerateSchema_struct split: sum.splits)
  from structFields_required [OF loop] have r: "r = ?names" by simp
  have req: "Required (attrs s) = (if ?names = [] then None else Some ?names)"
    using s r by simp
  then have first: "Required (attrs s) =
           (if filter (\<lambda>f. \<not> optional (Tag f)) (Fields t) = [] then None else Some ?names)"
    by simp
  have second: "\<forall>f\<in>set (Fields t).
             optional (Tag f)
             \<and> (\<forall>g\<in>set (Fields t). \<not> optional (Tag g)
                    \<longrightarrow> propertyName (Name g) (Tag g) \<noteq> propertyName (Name f) (Tag f))
             \<longrightarrow> (\<forall>req. Required (attrs s) = Some req
                    \<longrightarrow> propertyName (Name f) (Tag f) \<notin> set req)"
  proof (intro ballI impI allI)
    fix f req'
    assume f: "f \<in> set (Fields t)"
      and h: "optional (Tag f)
             \<and> (\<forall>g\<in>set (Fields t). \<not> optional (Tag g)
                    \<longrightarrow> propertyName (Name g) (Tag g) \<noteq> propertyName (Name f) (Tag f))"
      and "Required (attrs s) = Some req'"
    with req have "req' = ?names" by (simp split: if_splits)
    with h show "propertyName (Name f) (Tag f) \<notin> set req'" by auto
  qed
  from first second show ?thesis by blast
qed

theorem required_is_names_of_unmarked_fields_witness:
  "Kind personStruct = reflect_Struct \<and> personStruct \<noteq> ipType example_host
   \<and> personStruct \<noteq> timeType example_host \<and> personStruct \<noteq> uriType example_host
   \<and> GenerateSchema example_host personStruct
       = Inr (Schema (zero\<lparr>Type := ''object'', Required := Some [''name'']\<rparr>) None
           (Some [(''name'', Schema (zero\<lparr>Type := ''string''\<rparr>) None None),
                  (''age'', Schema (zero\<lparr>Type := ''integer'', Minimum := Some 0\<rparr>) None None)]))
   \<and> Required (attrs (Schema (zero\<lparr>Type := ''object'', Required := Some [''name'']\<rparr>) None
           (Some [(''name'', Schema (zero\<lparr>Type := ''string''\<rparr>) None None),
                  (''age'', Schema (zero\<lparr>Type := ''integer'', Minimum := Some 0\<rparr>) None None)])))
       = Some (map (\<lambda>f. propertyName (Name f) (Tag f))
                (filter (\<lambda>f. \<not> optional (Tag f)) (Fields personStruct)))
   \<and> map (\<lambda>f. propertyName (Name f) (Tag f))
        (filter (\<lambda>f. \<not> optional (Tag f)) (Fields personStruct)) = [''name'']
   \<and> optional [(''json'', ''age,omitempty''), (''minimum'', ''0'')]
   \<and> propertyName ''Age'' [(''json'', ''age,omitempty''), (''minimum'', ''0'')] = ''age''
   \<and> ''age'' \<notin> set [''name'']"
proof -
  have k: "Kind personStruct = reflect_Struct" "personStruct \<noteq> ipType example_host"
    "personStruct \<noteq> timeType example_host" "personStruct \<noteq> uriType example_host"
    by (simp_all add: personStruct_def example_host_def)
  have names: "map (\<lambda>f. propertyName (Name f) (Tag f))
        (filter (\<lambda>f. \<not> optional (Tag f)) (Fields personStruct)) = [''name'']"
    by (simp add: personStruct_def eval_defs)
  then have ne: "filter (\<lambda>f. \<not> optional (Tag f)) (Fields personStruct) \<noteq> []" by auto
  have age: "optional [(''json'', ''age,omitempty''), (''minimum'', ''0'')]"
    "propertyName ''Age'' [(''json'', ''age,omitempty''), (''minimum'', ''0'')] = ''age''"
    by (simp_all add: eval_defs)
  from required_is_names_of_unmarked_fields [OF k personStruct_schema] ne names k
    personStruct_schema age
  show ?thesis by simp
qed

text \<open>
  C2 as stated fails where a field with the marker shares its property name with a field
  without it: in \<open>clashStruct\<close> the field \<^verbatim>\<open>B\<close> carries \<^verbatim>\<open>omitempty\<close> and resolves to
  \<^verbatim>\<open>x\<close>, and \<^verbatim>\<open>x\<close> is in \<^verbatim>\<open>required\<close>.
\<close>

theorem marked_field_name_in_required_counterexample:
  "GenerateSchema example_host clashStruct
     = Inr (Schema (zero\<lparr>Type := ''object'', Required := Some [''x'']\<rparr>) None
         (Some [(''x'', Schema (zero\<lparr>Type := ''string''\<rparr>) None None)]))
   \<and> StructField ''B'' stringT [(''json'', ''x,omitempty'')] \<in> set (Fields clashStruct)
   \<and> optional (Tag (StructField ''B'' stringT [(''json'', ''x,omitempty'')]))
   \<and> propertyName (Name (StructField ''B'' stringT [(''json'', ''x,omitempty'')]))
         (Tag (StructField ''B'' stringT [(''json'', ''x,omitempty'')]))
       \<in> set (the (Required (attrs
           (Schema (zero\<lparr>Type := ''object'', Required := Some [''x'']\<rparr>) None
             (Some [(''x'', Schema (zero\<lparr>Type := ''string''\<rparr>) None None)])))))"
  by (simp add: clashStruct_schema) (simp add: clashStruct_def eval_defs)

text \<open>
  C3, as the code has it. Given that \<^verbatim>\<open>net.IP\<close> is a slice type: a type of kind
  \<^verbatim>\<open>uint\<close>, \<^verbatim>\<open>uint8\<close>, \<^verbatim>\<open>uint16\<close>, \<^verbatim>\<open>uint32\<close> or \<^verbatim>\<open>uint64\<close> yields exactly the schema with
  type \<^verbatim>\<open>integer\<close> and minimum 0; a type of kind \<^verbatim>\<open>int\<close>, \<^verbatim>\<open>int8\<close>, \<^verbatim>\<open>int16\<close>, \<^verbatim>\<open>int32\<close> or
  \<^verbatim>\<open>int64\<close> yields exactly the schema with type \<^verbatim>\<open>integer\<close> and no minimum; the
  remaining unsigned integer kind, \<^verbatim>\<open>uintptr\<close>, is not in the switch and yields the
  unsupported-type error.
\<close>

theorem integer_kinds:
  assumes "Kind (ipType h) = reflect_Slice"
  shows "(Kind t \<in> {reflect_Uint, reflect_Uint8, reflect_Uint16, reflect_Uint32, reflect_Uint64}
            \<longrightarrow> GenerateSchema h t
                  = Inr (Schema (zero\<lparr>Type := ''integer'', Minimum := Some 0\<rparr>) None None))
       \<and> (Kind t \<in> {reflect_Int, reflect_Int8, reflect_Int16, reflect_Int32, reflect_Int64}
            \<longrightarrow> GenerateSchema h t = Inr (Schema (zero\<lparr>Type := ''integer''\<rparr>) None None))
       \<and> (Kind t = reflect_Uintptr
            \<longrightarrow> GenerateSchema h t = Inl (UnsupportedType reflect_Uintptr (String t)))"
proof (intro conjI impI)
  assume k: "Kind t \<in> {reflect_Uint, reflect_Uint8, reflect_Uint16, reflect_Uint32, reflect_Uint64}"
  with assms have "t \<noteq> ipType h" by auto
  then show "GenerateSchema h t
      = Inr (Schema (zero\<lparr>Type := ''integer'', Minimum := Some 0\<rparr>) None None)"
    using k by (rule GenerateSchema_unsigned)
next
  assume k: "Kind t \<in> {reflect_Int, reflect_Int8, reflect_Int16, reflect_Int32, reflect_Int64}"
  with assms have "t \<noteq> ipType h" by auto
  then show "GenerateSchema h t = Inr (Schema (zero\<lparr>Type := ''integer''\<rparr>) None None)"
    using k by (rule GenerateSchema_signed)
next
  assume k: "Kind t = reflect_Uintptr"
  with assms have "t \<noteq> ipType h" by auto
  then show "GenerateSchema h t = Inl (UnsupportedType reflect_Uintptr (String t))"
    using k GenerateSchema_unsupported [of t h] by simp
qed

theorem integer_kinds_witness:
  "Kind (ipType example_host) = reflect_Slice
   \<and> Kind uint8T \<in> {reflect_Uint, reflect_Uint8, reflect_Uint16, reflect_Uint32, reflect_Uint64}
   \<and> GenerateSchema example_host uint8T
       = Inr (Schema (zero\<lparr>Type := ''integer'', Minimum := Some 0\<rparr>) None None)
   \<and> Kind intT \<in> {reflect_Int, reflect_Int8, reflect_Int16, reflect_Int32, reflect_Int64}
   \<and> GenerateSchema example_host intT = Inr (Schema (zero\<lparr>Type := ''integer''\<rparr>) None None)
   \<and> Kind uintptrT = reflect_Uintptr
   \<and> GenerateSchema example_host uintptrT
       = Inl (UnsupportedType reflect_Uintptr (String uintptrT))"
  using integer_kinds [of example_host uint8T] integer_kinds [of example_host intT]
    integer_kinds [of example_host uintptrT]
  by (simp add: example_host_def uint8T_def intT_def uintptrT_def)

text \<open>
  C3 as stated fails at \<^verbatim>\<open>uintptr\<close>, which Go counts among its unsigned integer types
  and \<^verbatim>\<open>reflect\<close> gives a kind of its own: the result is an error, not the schema with
  type \<^verbatim>\<open>integer\<close> and minimum 0.
\<close>

theorem uintptr_counterexample:
  "Kind uintptrT = reflect_Uintptr
   \<and> GenerateSchema example_host uintptrT = Inl (UnsupportedType reflect_Uintptr ''uintptr'')
   \<and> GenerateSchema example_host uintptrT
       \<noteq> Inr (Schema (zero\<lparr>Type := ''integer'', Minimum := Some 0\<rparr>) None None)"
  by (simp add: GenerateSchema_unfold example_host_def uintptrT_def uint8T_def)

text \<open>
  C4. For every type \<open>t\<close> and every pointer type \<open>p\<close> whose element type is \<open>t\<close>,
  GenerateSchema gives for \<open>p\<close> what it gives for \<open>t\<close>, the same schema or the same
  error: the pointer adds nothing and changes nothing. The premise on the host says that
  \<^verbatim>\<open>net.IP\<close> is a slice type, hence no pointer type.
\<close>

theorem pointer_is_transparent:
  assumes "Kind (ipType h) = reflect_Slice" and "Kind p = reflect_Ptr" and "Elem p = Some t"
  shows "GenerateSchema h p = GenerateSchema h t"
proof -
  from assms(1,2) have "p \<noteq> ipType h" by auto
  then show ?thesis using assms(2,3) by (rule GenerateSchema_ptr)
qed

theorem pointer_is_transparent_witness:
  "Kind (ipType example_host) = reflect_Slice
   \<and> Kind (RType ''*int'' reflect_Ptr (Some intT) []) = reflect_Ptr
   \<and> Elem (RType ''*int'' reflect_Ptr (Some intT) []) = Some intT
   \<and> GenerateSchema example_host (RType ''*int'' reflect_Ptr (Some intT) [])
       = GenerateSchema example_host intT"
  using pointer_is_transparent [of example_host "RType ''*int'' reflect_Ptr (Some intT) []" intT]
  by (simp add: example_host_def)






text \<open>
  C7. For a type of kind map, GenerateSchema succeeds with the zero Schema: no
  \<^verbatim>\<open>type\<close>, and no other field set. The premise on the host says what \<^verbatim>\<open>net.IP\<close> is in the
  standard library, a slice type; without it a host could name a map type as its IP
  type.
\<close>

theorem map_kind_gives_zero_schema:
  assumes "Kind t = reflect_Map" and "Kind (ipType h) = reflect_Slice"
  shows "GenerateSchema h t = Inr (Schema zero None None)"
proof -
  from assms have "t \<noteq> ipType h" by auto
  with assms(1) show ?thesis by (simp add: GenerateSchema_map)
qed

theorem map_kind_gives_zero_schema_witness:
  "Kind (RType ''map[string]int'' reflect_Map (Some intT) []) = reflect_Map
   \<and> Kind (ipType example_host) = reflect_Slice
   \<and> GenerateSchema example_host (RType ''map[string]int'' reflect_Map (Some intT) [])
       = Inr (Schema zero None None)"
  using map_kind_gives_zero_schema
    [of "RType ''map[string]int'' reflect_Map (Some intT) []" example_host]
  by (simp add: example_host_def)



text \<open>
  C9. Let two fields \<open>f1\<close>, \<open>f2\<close> of a struct resolve to the same property name \<open>n\<close>,
  neither with the \<^verbatim>\<open>omitempty\<close> marker, \<open>f2\<close> being the last field of that name. If
  GenerateSchema succeeds, \<^verbatim>\<open>properties\<close> has exactly one entry for \<open>n\<close>, holding the schema
  of \<open>f2\<close>, while \<^verbatim>\<open>required\<close> lists \<open>n\<close> once per unmarked field of that name: at least
  twice, and exactly twice when no other field resolves to \<open>n\<close>.
\<close>

theorem colliding_names:
  assumes "Kind t = reflect_Struct" and "t \<noteq> ipType h" and "t \<noteq> timeType h"
    and "t \<noteq> uriType h"
    and fields: "Fields t = pre @ f1 # mid @ f2 # post"
    and n1: "propertyName (Name f1) (Tag f1) = n" and n2: "propertyName (Name f2) (Tag f2) = n"
    and o1: "\<not> optional (Tag f1)" and o2: "\<not> optional (Tag f2)"
    and last: "\<forall>g\<in>set post. propertyName (Name g) (Tag g) \<noteq> n"
    and ok: "GenerateSchema h t = Inr s"
  shows "\<exists>props req s2.
           Properties s = Some props \<and> Required (attrs s) = Some req
           \<and> fieldSchema h f2 = Inr s2
           \<and> filter (\<lambda>kv. fst kv = n) props = [(n, s2)]
           \<and> count_list req n
               = length (filter (\<lambda>g. propertyName (Name g) (Tag g) = n \<and> \<not> optional (Tag g))
                   (Fields t))
           \<and> 2 \<le> count_list req n
           \<and> ((\<forall>g\<in>set (pre @ mid). propertyName (Name g) (Tag g) \<noteq> n)
                \<longrightarrow> count_list req n = 2)"
proof -
  let ?nm = "\<lambda>g. propertyName (Name g) (Tag g)"
  let ?P = "\<lambda>g. \<not> optional (Tag g)"
  from assms(1-4) ok obtain p r where loop: "structFields h (Fields t) [] [] = Inr (p, r)"
    and s: "s = Schema (zero\<lparr>Type := ''object'',
                 Required := (if length r > 0 then Some r else None)\<rparr>) None
               (if length p > 0 then Some p else None)"
    by (auto simp: GenerateSchema_struct split: sum.splits)
  from structFields_required [OF loop] have r: "r = map ?nm (filter ?P (Fields t))" by simp
  have cnt: "count_list r n = length (filter (\<lambda>g. ?nm g = n \<and> ?P g) (Fields t))"
    unfolding r by (rule count_list_names)
  have two: "2 \<le> count_list r n"
    unfolding cnt fields using n1 n2 o1 o2 by simp
  then have "r \<noteq> []" by auto
  have exact: "count_list r n = 2" if "\<forall>g\<in>set (pre @ mid). ?nm g \<noteq> n"
  proof -
    from that last have "filter (\<lambda>g. ?nm g = n \<and> ?P g) pre = []"
      "filter (\<lambda>g. ?nm g = n \<and> ?P g) mid = []" "filter (\<lambda>g. ?nm g = n \<and> ?P g) post = []"
      by (auto simp: filter_empty_conv)
    then show ?thesis unfolding cnt fields using n1 n2 o1 o2 by simp
  qed
  \<comment> \<open>The loop up to and including \<open>f2\<close>, then over \<open>post\<close>.\<close>
  have split: "Fields t = (pre @ f1 # mid) @ f2 # post" using fields by simp
  from loop obtain p1 r1 where
    before: "structFields h (pre @ f1 # mid) [] [] = Inr (p1, r1)"
    and rest: "structFields h (f2 # post) p1 r1 = Inr (p, r)"
    unfolding split structFields_append [of h "pre @ f1 # mid" "f2 # post"]
    by (auto split: sum.splits)
  from rest obtain s2 where s2: "fieldSchema h f2 = Inr s2"
    and after: "structFields h post (AList.update n s2 p1) (r1 @ [n]) = Inr (p, r)"
    using n2 o2 by (auto simp: structFields_Cons split: sum.splits)
  have "map_of p n = map_of (AList.update n s2 p1) n"
    using after last by (rule structFields_other_keys)
  then have look: "map_of p n = Some s2" by (simp add: update_conv')
  have "distinct (map fst p)"
    using loop by (rule structFields_distinct) simp
  then have one: "filter (\<lambda>kv. fst kv = n) p = [(n, s2)]"
    using look by (rule filter_key_distinct)
  then have "p \<noteq> []" by auto
  have "Properties s = Some p" using s \<open>p \<noteq> []\<close> by simp
  moreover have "Required (attrs s) = Some r" using s \<open>r \<noteq> []\<close> by simp
  ultimately show ?thesis using s2 one cnt two exact by blast
qed

theorem colliding_names_witness:
  "Kind twiceStruct = reflect_Struct \<and> twiceStruct \<noteq> ipType example_host
   \<and> twiceStruct \<noteq> timeType example_host \<and> twiceStruct \<noteq> uriType example_host
   \<and> Fields twiceStruct
       = [] @ StructField ''A'' intT [(''json'', ''x'')]
            # [] @ StructField ''B'' stringT [(''json'', ''x'')] # []
   \<and> propertyName ''A'' [(''json'', ''x'')] = ''x'' \<and> propertyName ''B'' [(''json'', ''x'')] = ''x''
   \<and> \<not> optional [(''json'', ''x'')]
   \<and> GenerateSchema example_host twiceStruct
       = Inr (Schema (zero\<lparr>Type := ''object'', Required := Some [''x'', ''x'']\<rparr>) None
           (Some [(''x'', Schema (zero\<lparr>Type := ''string''\<rparr>) None None)]))
   \<and> fieldSchema example_host (StructField ''B'' stringT [(''json'', ''x'')])
       = Inr (Schema (zero\<lparr>Type := ''string''\<rparr>) None None)
   \<and> filter (\<lambda>kv. fst kv = ''x'') [(''x'', Schema (zero\<lparr>Type := ''string''\<rparr>) None None)]
       = [(''x'', Schema (zero\<lparr>Type := ''string''\<rparr>) None None)]
   \<and> count_list [''x'', ''x''] ''x'' = 2"
proof -
  have k: "Kind twiceStruct = reflect_Struct" "twiceStruct \<noteq> ipType example_host"
    "twiceStruct \<noteq> timeType example_host" "twiceStruct \<noteq> uriType example_host"
    by (simp_all add: twiceStruct_def example_host_def)
  have f: "Fields twiceStruct
       = [] @ StructField ''A'' intT [(''json'', ''x'')]
            # [] @ StructField ''B'' stringT [(''json'', ''x'')] # []"
    by (simp add: twiceStruct_def)
  have n: "propertyName (Name (StructField ''A'' intT [(''json'', ''x'')]))
             (Tag (StructField ''A'' intT [(''json'', ''x'')])) = ''x''"
    "propertyName (Name (StructField ''B'' stringT [(''json'', ''x'')]))
             (Tag (StructField ''B'' stringT [(''json'', ''x'')])) = ''x''"
    "\<not> optional (Tag (StructField ''A'' intT [(''json'', ''x'')]))"
    "\<not> optional (Tag (StructField ''B'' stringT [(''json'', ''x'')]))"
    by (simp_all add: eval_defs)
  have l: "\<forall>g\<in>set []. propertyName (Name g) (Tag g) \<noteq> ''x''" by simp
  have fs: "fieldSchema example_host (StructField ''B'' stringT [(''json'', ''x'')])
       = Inr (Schema (zero\<lparr>Type := ''string''\<rparr>) None None)"
    by (simp add: fieldSchema_def eval_defs)
  from colliding_names [OF k f n l twiceStruct_schema] k f n twiceStruct_schema fs
  show ?thesis by simp
qed

text \<open>
  C10. For \<^verbatim>\<open>[]byte\<close> GenerateSchema returns type \<^verbatim>\<open>array\<close> with items of type
  \<^verbatim>\<open>integer\<close> and minimum 0. \<open>byteSliceType\<close> is declared beside the special types, but
  the function does not compare against it. The premise on the host says that the IP type
  is the named type \<^verbatim>\<open>net.IP\<close>, which is not the unnamed type \<^verbatim>\<open>[]uint8\<close>.
\<close>

theorem byte_slice_is_array_of_integers:
  assumes "String (ipType h) = ''net.IP''"
  shows "GenerateSchema h byteSliceType
     = Inr (Schema (zero\<lparr>Type := ''array''\<rparr>)
         (Some (Schema (zero\<lparr>Type := ''integer'', Minimum := Some 0\<rparr>) None None)) None)"
proof -
  have "String byteSliceType \<noteq> String (ipType h)" "String uint8T \<noteq> String (ipType h)"
    by (simp_all add: assms byteSliceType_def uint8T_def)
  then have ne: "byteSliceType \<noteq> ipType h" "uint8T \<noteq> ipType h"
    by auto
  have "GenerateSchema h uint8T
      = Inr (Schema (zero\<lparr>Type := ''integer'', Minimum := Some 0\<rparr>) None None)"
    using ne(2) by (rule GenerateSchema_unsigned) (simp add: uint8T_def)
  moreover have "GenerateSchema h byteSliceType
      = (case GenerateSchema h uint8T of
           Inl err \<Rightarrow> Inl err
         | Inr s \<Rightarrow> Inr (Schema (zero\<lparr>Type := ''array''\<rparr>) (Some s) None))"
    using ne(1) by (rule GenerateSchema_elem) (simp_all add: byteSliceType_def)
  ultimately show ?thesis by simp
qed

theorem byte_slice_is_array_of_integers_witness:
  "String (ipType example_host) = ''net.IP''
   \<and> GenerateSchema example_host byteSliceType
     = Inr (Schema (zero\<lparr>Type := ''array''\<rparr>)
         (Some (Schema (zero\<lparr>Type := ''integer'', Minimum := Some 0\<rparr>) None None)) None)"
  using byte_slice_is_array_of_integers [of example_host]
  by (simp add: example_host_def)

end
